theory Spec2Isabelle
  imports Complex_Main "HOL-Library.Log_Nat" "HOL-Library.AList"
begin

section \<open>Python values used by \<open>Meta_Probability.py\<close>\<close>

subsection \<open>Binary64 floating point\<close>

text \<open>
  A Python \<open>float\<close> is an IEEE-754 binary64 number. A finite float is kept as the
  rational it denotes; every arithmetic result is rounded to the nearest representable
  number, ties to even, with gradual underflow and overflow to infinity. The two zeros
  are identified: the program only adds, subtracts, takes absolute values and compares,
  and none of these tells \<open>-0.0\<close> from \<open>0.0\<close>.
\<close>

datatype pyfloat = Fin rat | PosInf | NegInf | NaN

definition pow2 :: "int \<Rightarrow> rat" where
  "pow2 k = (if 0 \<le> k then of_int (2 ^ nat k) else 1 / of_int (2 ^ nat (- k)))"

text \<open>\<open>round_ratio a q s\<close> is \<open>a / (q * 2^s)\<close> rounded to an integer, ties to even.\<close>

definition round_ratio :: "int \<Rightarrow> int \<Rightarrow> int \<Rightarrow> int" where
  "round_ratio a q s =
     (let N = a * 2 ^ nat (- s); D = q * 2 ^ nat s; f = N div D; r = N mod D
      in if 2 * r < D then f else if D < 2 * r then f + 1
         else if even f then f else f + 1)"

text \<open>\<open>ilog2 a q\<close> is the binary exponent of \<open>a / q\<close>, for positive \<open>a\<close> and \<open>q\<close>.\<close>

definition ilog2 :: "int \<Rightarrow> int \<Rightarrow> int" where
  "ilog2 a q = (let k = bitlen a - bitlen q
                in if q * 2 ^ nat k \<le> a * 2 ^ nat (- k) then k else k - 1)"

text \<open>
  Rounding of a rational to binary64: 53 significant bits, least exponent \<open>-1074\<close>,
  infinity from \<open>2^1024\<close> on.
\<close>

definition round64 :: "rat \<Rightarrow> pyfloat" where
  "round64 x = (case quotient_of x of (p, q) \<Rightarrow>
     if p = 0 then Fin 0
     else (let a = \<bar>p\<bar>; ue = max (ilog2 a q - 52) (- 1074); m = round_ratio a q ue
           in if 971 < ue \<or> (ue = 971 \<and> m = 2 ^ 53)
              then (if 0 < p then PosInf else NegInf)
              else Fin (of_int (if 0 < p then m else - m) * pow2 ue)))"

fun fneg :: "pyfloat \<Rightarrow> pyfloat" where
  "fneg (Fin a) = Fin (- a)"
| "fneg PosInf = NegInf"
| "fneg NegInf = PosInf"
| "fneg NaN = NaN"

fun fabs :: "pyfloat \<Rightarrow> pyfloat" where
  "fabs (Fin a) = Fin \<bar>a\<bar>"
| "fabs PosInf = PosInf"
| "fabs NegInf = PosInf"
| "fabs NaN = NaN"

fun fadd :: "pyfloat \<Rightarrow> pyfloat \<Rightarrow> pyfloat" where
  "fadd NaN y = NaN"
| "fadd x NaN = NaN"
| "fadd PosInf NegInf = NaN"
| "fadd NegInf PosInf = NaN"
| "fadd PosInf y = PosInf"
| "fadd NegInf y = NegInf"
| "fadd x PosInf = PosInf"
| "fadd x NegInf = NegInf"
| "fadd (Fin a) (Fin b) = round64 (a + b)"

definition fsub :: "pyfloat \<Rightarrow> pyfloat \<Rightarrow> pyfloat" where
  "fsub x y = fadd x (fneg y)"

text \<open>\<open>x < y\<close> and \<open>x <= y\<close> on floats; every comparison with a NaN is false.\<close>

fun flt :: "pyfloat \<Rightarrow> pyfloat \<Rightarrow> bool" where
  "flt NaN y = False"
| "flt x NaN = False"
| "flt PosInf y = False"
| "flt x NegInf = False"
| "flt NegInf y = True"
| "flt x PosInf = True"
| "flt (Fin a) (Fin b) = (a < b)"

fun fle :: "pyfloat \<Rightarrow> pyfloat \<Rightarrow> bool" where
  "fle NaN y = False"
| "fle x NaN = False"
| "fle NegInf y = True"
| "fle x PosInf = True"
| "fle PosInf y = False"
| "fle x NegInf = False"
| "fle (Fin a) (Fin b) = (a \<le> b)"

subsection \<open>Values and exceptions\<close>

datatype pyval =
    PNone
  | PBool bool
  | PInt int
  | PFloat pyfloat
  | PStr string
  | PList "pyval list"

text \<open>
  An exception is its class and its message. \<open>KeyError\<close>, \<open>AttributeError\<close> and
  \<open>UnboundLocalError\<close> carry the key, the attribute and the variable instead.
  \<open>NotModelled\<close> is not a Python exception: it marks the one operation left out of this
  model, \<open>str\<close> of a float or of a list, which an \<open>RV\<close> never performs on its elements.
\<close>

datatype pyerr =
    TypeError string
  | ValueError string
  | OverflowError string
  | KeyError string
  | AttributeError string
  | UnboundLocalError string
  | NotModelled string

fun type_name :: "pyval \<Rightarrow> string" where
  "type_name PNone = ''NoneType''"
| "type_name (PBool b) = ''bool''"
| "type_name (PInt i) = ''int''"
| "type_name (PFloat x) = ''float''"
| "type_name (PStr s) = ''str''"
| "type_name (PList xs) = ''list''"

definition quoted :: "string \<Rightarrow> string" where
  "quoted s = [CHR 0x27] @ s @ [CHR 0x27]"

text \<open>\<open>isinstance(arg, int)\<close>: \<open>bool\<close> is a subclass of \<open>int\<close>.\<close>

fun isinstance_int :: "pyval \<Rightarrow> bool" where
  "isinstance_int (PInt i) = True"
| "isinstance_int (PBool b) = True"
| "isinstance_int v = False"

fun is_number :: "pyval \<Rightarrow> bool" where
  "is_number (PInt i) = True"
| "is_number (PBool b) = True"
| "is_number (PFloat x) = True"
| "is_number v = False"

subsection \<open>Arithmetic on an accumulator\<close>

text \<open>
  The program adds into accumulators that start at the integer \<open>0\<close> (\<open>sum(value)\<close> and
  \<open>cdf = 0\<close>), so the left operand of every \<open>+\<close> is an \<open>int\<close> or a \<open>float\<close>.
\<close>

datatype pynum = NInt int | NFloat pyfloat

definition int_to_float :: "int \<Rightarrow> pyerr + pyfloat" where
  "int_to_float n = (case round64 (of_int n) of
       Fin a \<Rightarrow> Inr (Fin a)
     | _ \<Rightarrow> Inl (OverflowError ''int too large to convert to float''))"

fun num_type_name :: "pynum \<Rightarrow> string" where
  "num_type_name (NInt a) = ''int''"
| "num_type_name (NFloat x) = ''float''"

definition bool_int :: "bool \<Rightarrow> int" where
  "bool_int b = (if b then 1 else 0)"

fun py_add :: "pynum \<Rightarrow> pyval \<Rightarrow> pyerr + pynum" where
  "py_add (NInt a) (PInt b) = Inr (NInt (a + b))"
| "py_add (NInt a) (PBool b) = Inr (NInt (a + bool_int b))"
| "py_add (NInt a) (PFloat y) =
     (case int_to_float a of Inl e \<Rightarrow> Inl e | Inr x \<Rightarrow> Inr (NFloat (fadd x y)))"
| "py_add (NFloat x) (PInt b) =
     (case int_to_float b of Inl e \<Rightarrow> Inl e | Inr y \<Rightarrow> Inr (NFloat (fadd x y)))"
| "py_add (NFloat x) (PBool b) = Inr (NFloat (fadd x (Fin (of_int (bool_int b)))))"
| "py_add (NFloat x) (PFloat y) = Inr (NFloat (fadd x y))"
| "py_add acc v = Inl (TypeError (''unsupported operand type(s) for +: ''
       @ quoted (num_type_name acc) @ '' and '' @ quoted (type_name v)))"

text \<open>
  \<open>sum(value)\<close>: the items are added from left to right, starting from \<open>0\<close>. (CPython
  from 3.12 on compensates the rounding error of a sum of floats, which can change the
  last bits of the result when two or more floats are added.)
\<close>

fun py_sum_from :: "pynum \<Rightarrow> pyval list \<Rightarrow> pyerr + pynum" where
  "py_sum_from acc [] = Inr acc"
| "py_sum_from acc (x # xs) =
     (case py_add acc x of Inl e \<Rightarrow> Inl e | Inr acc' \<Rightarrow> py_sum_from acc' xs)"

definition py_sum :: "pyval list \<Rightarrow> pyerr + pynum" where
  "py_sum xs = py_sum_from (NInt 0) xs"

text \<open>\<open>_sum - 1.0\<close>: an \<open>int\<close> is converted to \<open>float\<close> first.\<close>

fun sub_float :: "pynum \<Rightarrow> pyfloat \<Rightarrow> pyerr + pyfloat" where
  "sub_float (NInt a) y =
     (case int_to_float a of Inl e \<Rightarrow> Inl e | Inr x \<Rightarrow> Inr (fsub x y))"
| "sub_float (NFloat x) y = Inr (fsub x y)"

text \<open>\<open>cdf >= r\<close>: Python compares an \<open>int\<close> with a \<open>float\<close> exactly.\<close>

fun num_ge :: "pynum \<Rightarrow> pyfloat \<Rightarrow> bool" where
  "num_ge (NInt a) r = fle r (Fin (of_int a))"
| "num_ge (NFloat x) r = fle r x"

subsection \<open>\<open>str\<close> and \<open>len\<close>\<close>

definition digit_char :: "nat \<Rightarrow> char" where
  "digit_char d = char_of (48 + d)"

fun digits :: "nat \<Rightarrow> string" where
  "digits n = (if n < 10 then [digit_char n]
               else digits (n div 10) @ [digit_char (n mod 10)])"

declare digits.simps [simp del]

definition str_int :: "int \<Rightarrow> string" where
  "str_int i = (if i < 0 then CHR ''-'' # digits (nat (- i)) else digits (nat i))"

fun py_str :: "pyval \<Rightarrow> pyerr + string" where
  "py_str PNone = Inr ''None''"
| "py_str (PBool b) = Inr (if b then ''True'' else ''False'')"
| "py_str (PInt i) = Inr (str_int i)"
| "py_str (PStr s) = Inr s"
| "py_str (PFloat x) = Inl (NotModelled ''str(float)'')"
| "py_str (PList xs) = Inl (NotModelled ''str(list)'')"

fun py_len :: "pyval \<Rightarrow> pyerr + int" where
  "py_len (PList xs) = Inr (int (length xs))"
| "py_len (PStr s) = Inr (int (length s))"
| "py_len v = Inl (TypeError (''object of type '' @ quoted (type_name v) @ '' has no len()''))"

section \<open>The descriptors\<close>

text \<open>
  An instance is its \<open>__dict__\<close>: the two attributes that \<open>RV\<close> guards with descriptors
  and the two lengths that \<open>RandomGen.__init__\<close> stores. An attribute that has not been
  set is \<open>None\<close>. The descriptor \<open>List\<close> lets only lists through, so the guarded
  attributes hold lists.
\<close>

record rv_instance =
  elements :: "pyval list option"
  probabilities :: "pyval list option"
  l_elem :: "int option"
  l_prob :: "int option"

datatype attr = Elements | Probabilities

fun attr_name :: "attr \<Rightarrow> string" where
  "attr_name Elements = ''elements''"
| "attr_name Probabilities = ''probabilities''"

text \<open>
  An assignment to a guarded attribute yields the lines it printed, the exception it
  raised, if any, and the instance as it is afterwards.
\<close>

type_synonym effect = "string list \<times> pyerr option \<times> rv_instance"

text \<open>\<open>Descriptor_.__set__\<close>: \<open>instance.__dict__[self.name] = value\<close>.\<close>

fun Descriptor_set :: "attr \<Rightarrow> rv_instance \<Rightarrow> pyval list \<Rightarrow> effect" where
  "Descriptor_set Elements inst v = ([], None, inst\<lparr>elements := Some v\<rparr>)"
| "Descriptor_set Probabilities inst v = ([], None, inst\<lparr>probabilities := Some v\<rparr>)"

text \<open>\<open>Descriptor_.__get__\<close>: \<open>instance.__dict__[self.name]\<close>.\<close>

fun Descriptor_get :: "attr \<Rightarrow> rv_instance \<Rightarrow> pyerr + pyval list" where
  "Descriptor_get Elements inst =
     (case elements inst of None \<Rightarrow> Inl (KeyError ''elements'') | Some v \<Rightarrow> Inr v)"
| "Descriptor_get Probabilities inst =
     (case probabilities inst of None \<Rightarrow> Inl (KeyError ''probabilities'') | Some v \<Rightarrow> Inr v)"

text \<open>
  \<open>TypeChecked.__set__\<close> with \<open>ty = list\<close>, as the class \<open>List\<close> has it. The first
  argument is the next \<open>__set__\<close> in the method resolution order, reached by \<open>super()\<close>.
\<close>

definition List_set ::
  "(attr \<Rightarrow> rv_instance \<Rightarrow> pyval list \<Rightarrow> effect) \<Rightarrow> attr \<Rightarrow> rv_instance \<Rightarrow> pyval \<Rightarrow> effect" where
  "List_set super name inst v =
     (case v of
        PList xs \<Rightarrow> super name inst xs
      | _ \<Rightarrow> ([], Some (TypeError (''Expected <class '' @ quoted ''list'' @ ''> for field: ''
                  @ attr_name name @ ''.'')), inst))"

text \<open>\<open>_Integers.__set__\<close>.\<close>

definition Integers_set ::
  "(attr \<Rightarrow> rv_instance \<Rightarrow> pyval list \<Rightarrow> effect) \<Rightarrow> attr \<Rightarrow> rv_instance \<Rightarrow> pyval list \<Rightarrow> effect" where
  "Integers_set super name inst v =
     (if \<not> list_all isinstance_int v
      then ([], Some (TypeError ''The List passed must consist of all Integer Values.''), inst)
      else super name inst v)"

text \<open>
  \<open>_Probabilities.__set__\<close>. A \<open>TypeError\<close> of the summation is printed and raised
  again by the bare \<open>raise\<close>; any other exception of the summation, and any exception of
  \<open>_sum - 1.0\<close> in the \<open>else\<close> branch, passes through.
\<close>

definition epsilon :: pyfloat where
  "epsilon = round64 (1 / 10000)"

definition Probabilities_set ::
  "(attr \<Rightarrow> rv_instance \<Rightarrow> pyval list \<Rightarrow> effect) \<Rightarrow> attr \<Rightarrow> rv_instance \<Rightarrow> pyval list \<Rightarrow> effect" where
  "Probabilities_set super name inst v =
     (case py_sum v of
        Inl (TypeError err) \<Rightarrow>
          ([''Probabilities required: '' @ err @ ''.''], Some (TypeError err), inst)
      | Inl e \<Rightarrow> ([], Some e, inst)
      | Inr s \<Rightarrow>
          (case sub_float s (Fin 1) of
             Inl e \<Rightarrow> ([], Some e, inst)
           | Inr d \<Rightarrow>
               if flt (fabs d) epsilon then super name inst v
               else ([], Some (ValueError ''Must be within Epsilon of 1.0.''), inst)))"

text \<open>
  \<open>List_Integers_\<close> resolves \<open>__set__\<close> through \<open>List\<close>, \<open>TypeChecked\<close>, \<open>_Integers\<close>,
  \<open>Descriptor_\<close>; \<open>List_Probabilities\<close> through \<open>List\<close>, \<open>TypeChecked\<close>,
  \<open>_Probabilities\<close>, \<open>Descriptor_\<close>.
\<close>

definition List_Integers_set :: "attr \<Rightarrow> rv_instance \<Rightarrow> pyval \<Rightarrow> effect" where
  "List_Integers_set = List_set (Integers_set Descriptor_set)"

definition List_Probabilities_set :: "attr \<Rightarrow> rv_instance \<Rightarrow> pyval \<Rightarrow> effect" where
  "List_Probabilities_set = List_set (Probabilities_set Descriptor_set)"

text \<open>The assignments \<open>inst.elements = v\<close> and \<open>inst.probabilities = v\<close> on an \<open>RV\<close>.\<close>

definition set_elements :: "rv_instance \<Rightarrow> pyval \<Rightarrow> effect" where
  "set_elements inst v = List_Integers_set Elements inst v"

definition set_probabilities :: "rv_instance \<Rightarrow> pyval \<Rightarrow> effect" where
  "set_probabilities inst v = List_Probabilities_set Probabilities inst v"

section \<open>The random variable\<close>

definition blank :: rv_instance where
  "blank = \<lparr>elements = None, probabilities = None, l_elem = None, l_prob = None\<rparr>"

text \<open>
  \<open>RV(elements, probabilities)\<close>: \<open>RandomGen.__init__\<close> runs on a new instance, with
  the two assignments going through the descriptors of \<open>RV\<close>. The result is what was
  printed, and the instance or the exception.
\<close>

definition RV :: "pyval \<Rightarrow> pyval \<Rightarrow> string list \<times> (pyerr + rv_instance)" where
  "RV els ps =
     (case set_elements blank els of
        (out1, Some e, self1) \<Rightarrow> (out1, Inl e)
      | (out1, None, self1) \<Rightarrow>
          (case set_probabilities self1 ps of
             (out2, Some e, self2) \<Rightarrow> (out1 @ out2, Inl e)
           | (out2, None, self2) \<Rightarrow>
               (case py_len els of
                  Inl e \<Rightarrow> (out1 @ out2, Inl e)
                | Inr n1 \<Rightarrow>
                    (case py_len ps of
                       Inl e \<Rightarrow> (out1 @ out2, Inl e)
                     | Inr n2 \<Rightarrow>
                         (out1 @ out2, Inr (self2\<lparr>l_elem := Some n1, l_prob := Some n2\<rparr>))))))"

definition list_tuple :: "rv_instance \<Rightarrow> pyerr + (pyval \<times> pyval) list" where
  "list_tuple self =
     (case l_elem self of
        None \<Rightarrow> Inl (AttributeError ''l_elem'')
      | Some a \<Rightarrow>
          (case l_prob self of
             None \<Rightarrow> Inl (AttributeError ''l_prob'')
           | Some b \<Rightarrow>
               if a = b then
                 (case Descriptor_get Elements self of
                    Inl e \<Rightarrow> Inl e
                  | Inr es \<Rightarrow>
                      (case Descriptor_get Probabilities self of
                         Inl e \<Rightarrow> Inl e
                       | Inr ps \<Rightarrow> Inr (zip es ps)))
               else Inl (ValueError ''Expecting to map each element to a probability.'')))"

text \<open>
  The random source is the stream of the values that \<open>uniform(0, 1)\<close> will return;
  a draw takes its head.
\<close>

type_synonym rng = "nat \<Rightarrow> pyfloat"

definition uniform :: "rng \<Rightarrow> pyfloat \<times> rng" where
  "uniform g = (g 0, \<lambda>n. g (Suc n))"

text \<open>
  The loop of \<open>next_num\<close>. The last argument is the loop variable \<open>item\<close>, unbound
  until the first iteration; the \<open>return item\<close> after the loop reads it.
\<close>

fun next_num_loop :: "(pyval \<times> pyval) list \<Rightarrow> pyfloat \<Rightarrow> pynum \<Rightarrow> pyval option \<Rightarrow> pyerr + pyval" where
  "next_num_loop [] r cdf item =
     (case item of None \<Rightarrow> Inl (UnboundLocalError ''item'') | Some i \<Rightarrow> Inr i)"
| "next_num_loop ((i, prob) # rest) r cdf item =
     (case py_add cdf prob of
        Inl e \<Rightarrow> Inl e
      | Inr cdf' \<Rightarrow> if num_ge cdf' r then Inr i else next_num_loop rest r cdf' (Some i))"

definition next_num :: "rv_instance \<Rightarrow> rng \<Rightarrow> (pyerr + pyval) \<times> rng" where
  "next_num self g =
     (case list_tuple self of
        Inl e \<Rightarrow> (Inl e, g)
      | Inr list_ \<Rightarrow>
          (case uniform g of (r, g') \<Rightarrow> (next_num_loop list_ r (NInt 0) None, g')))"

definition get_elements :: "rv_instance \<Rightarrow> pyerr + pyval list" where
  "get_elements self = Descriptor_get Elements self"

definition get_probabilities :: "rv_instance \<Rightarrow> pyerr + pyval list" where
  "get_probabilities self = Descriptor_get Probabilities self"

section \<open>Histograms\<close>

text \<open>
  A \<open>dict\<close> from strings to counts, in insertion order. Storing under a key that is
  present replaces its value in place; storing under a new key appends it.
\<close>

type_synonym pydict = "(string \<times> int) list"

definition dict_of :: "(string \<times> int) list \<Rightarrow> pydict" where
  "dict_of kvs = foldl (\<lambda>d (k, v). AList.update k v d) [] kvs"

text \<open>\<open>dict_[k] += 1\<close>.\<close>

definition dict_incr :: "pydict \<Rightarrow> string \<Rightarrow> pyerr + pydict" where
  "dict_incr d k =
     (case map_of d k of
        None \<Rightarrow> Inl (KeyError k)
      | Some c \<Rightarrow> Inr (AList.update k (c + 1) d))"

text \<open>\<open>[str(_) for _ in xs]\<close>.\<close>

fun str_all :: "pyval list \<Rightarrow> pyerr + string list" where
  "str_all [] = Inr []"
| "str_all (x # xs) =
     (case py_str x of
        Inl e \<Rightarrow> Inl e
      | Inr k \<Rightarrow> (case str_all xs of Inl e \<Rightarrow> Inl e | Inr ks \<Rightarrow> Inr (k # ks)))"

text \<open>
  The first two lines of \<open>generator_\<close> and of \<open>generator\<close>:
  \<open>keys = [str(_) for _ in data.get_elements()]\<close> and
  \<open>dict_ = dict(zip(keys, [0 for _ in keys]))\<close>.
\<close>

definition initial_dict :: "rv_instance \<Rightarrow> pyerr + pydict" where
  "initial_dict data =
     (case get_elements data of
        Inl e \<Rightarrow> Inl e
      | Inr es \<Rightarrow>
          (case str_all es of
             Inl e \<Rightarrow> Inl e
           | Inr keys \<Rightarrow> Inr (dict_of (zip keys (map (\<lambda>_. 0) keys)))))"

text \<open>\<open>dict_[str(output)] += 1\<close>.\<close>

definition tally :: "pydict \<Rightarrow> pyval \<Rightarrow> pyerr + pydict" where
  "tally d output = (case py_str output of Inl e \<Rightarrow> Inl e | Inr k \<Rightarrow> dict_incr d k)"

subsection \<open>Batch mode\<close>

text \<open>The loop \<open>for i in range(n)\<close> of \<open>generator_\<close>, with the iterations left to run.\<close>

fun generator_batch_loop :: "nat \<Rightarrow> rv_instance \<Rightarrow> pydict \<Rightarrow> rng \<Rightarrow> (pyerr + pydict) \<times> rng" where
  "generator_batch_loop 0 data d g = (Inr d, g)"
| "generator_batch_loop (Suc k) data d g =
     (case next_num data g of
        (Inl e, g') \<Rightarrow> (Inl e, g')
      | (Inr output, g') \<Rightarrow>
          (case tally d output of
             Inl e \<Rightarrow> (Inl e, g')
           | Inr d' \<Rightarrow> generator_batch_loop k data d' g'))"

text \<open>
  \<open>generator_(n, data)\<close>, named \<open>generator_batch\<close> here since a name cannot end with
  an underscore; \<open>range(n)\<close> is empty for a negative \<open>n\<close>.
\<close>

definition generator_batch :: "int \<Rightarrow> rv_instance \<Rightarrow> rng \<Rightarrow> (pyerr + pydict) \<times> rng" where
  "generator_batch n data g =
     (case initial_dict data of
        Inl e \<Rightarrow> (Inl e, g)
      | Inr d \<Rightarrow> generator_batch_loop (nat n) data d g)"

subsection \<open>Lazy mode\<close>

text \<open>
  The generator object that \<open>generator_next(n)\<close> returns: suspended with some
  iterations of its loop left, or finished. Asking it for the next value runs its body
  up to the next \<open>yield\<close>.
\<close>

datatype gen = Suspended rv_instance nat | Finished

datatype gen_result = Yield pyval | StopIteration | Raise pyerr

definition generator_next :: "rv_instance \<Rightarrow> int \<Rightarrow> gen" where
  "generator_next self n = Suspended self (nat n)"

fun gen_next :: "gen \<Rightarrow> rng \<Rightarrow> gen_result \<times> gen \<times> rng" where
  "gen_next Finished g = (StopIteration, Finished, g)"
| "gen_next (Suspended self 0) g = (StopIteration, Finished, g)"
| "gen_next (Suspended self (Suc k)) g =
     (case next_num self g of
        (Inl e, g') \<Rightarrow> (Raise e, Finished, g')
      | (Inr v, g') \<Rightarrow> (Yield v, Suspended self k, g'))"

fun gen_left :: "gen \<Rightarrow> nat" where
  "gen_left Finished = 0"
| "gen_left (Suspended self k) = k"

text \<open>The loop \<open>for elem in nums\<close> of \<open>generator\<close>.\<close>

function generator_loop :: "gen \<Rightarrow> pydict \<Rightarrow> rng \<Rightarrow> (pyerr + pydict) \<times> rng" where
  "generator_loop nums d g =
     (case gen_next nums g of
        (StopIteration, nums', g') \<Rightarrow> (Inr d, g')
      | (Raise e, nums', g') \<Rightarrow> (Inl e, g')
      | (Yield elem, nums', g') \<Rightarrow>
          (case tally d elem of
             Inl e \<Rightarrow> (Inl e, g')
           | Inr d' \<Rightarrow> generator_loop nums' d' g'))"
  by pat_completeness auto

termination generator_loop
  by (relation "measure (\<lambda>(nums, d, g). gen_left nums)")
    (auto elim!: gen_next.elims [OF sym] split: prod.splits sum.splits)

declare generator_loop.simps [simp del]

text \<open>The body of \<open>generator(n, data)\<close>, before the decorator is applied.\<close>

definition generator_body :: "int \<Rightarrow> rv_instance \<Rightarrow> rng \<Rightarrow> (pyerr + pydict) \<times> rng" where
  "generator_body n data g =
     (case initial_dict data of
        Inl e \<Rightarrow> (Inl e, g)
      | Inr d \<Rightarrow> generator_loop (generator_next data n) d g)"

text \<open>
  \<open>debug(prefix)\<close> applied to a function named \<open>qualname\<close>: the wrapper prints
  \<open>prefix + func.__qualname__\<close> and calls the function.
\<close>

definition debug :: "string \<Rightarrow> string \<Rightarrow> ('a \<Rightarrow> 'b) \<Rightarrow> 'a \<Rightarrow> string list \<times> 'b" where
  "debug prefix qualname func args = ([prefix @ qualname], func args)"

definition generator :: "int \<Rightarrow> rv_instance \<Rightarrow> rng \<Rightarrow> string list \<times> (pyerr + pydict) \<times> rng" where
  "generator n data g =
     debug (''Decorator - Using the Class'' @ [CHR 0x27]
              @ ''s method that consists of a Generator: '')
       ''generator'' (\<lambda>(n, data, g). generator_body n data g) (n, data, g)"

section \<open>Notions used in the statements\<close>

text \<open>The exceptions that the source raises with a literal message, and the one of \<open>float(int)\<close>.\<close>

definition integers_error :: pyerr where
  "integers_error = TypeError ''The List passed must consist of all Integer Values.''"

definition epsilon_error :: pyerr where
  "epsilon_error = ValueError ''Must be within Epsilon of 1.0.''"

definition shape_error :: pyerr where
  "shape_error = ValueError ''Expecting to map each element to a probability.''"

definition overflow_error :: pyerr where
  "overflow_error = OverflowError ''int too large to convert to float''"

text \<open>
  The condition of the specification on a list of probabilities:
  \<open>abs(sum(probabilities) - 1.0) < 1e-4\<close>, false when the expression cannot be evaluated.
\<close>

definition within_epsilon :: "pyval list \<Rightarrow> bool" where
  "within_epsilon v =
     (case py_sum v of
        Inl e \<Rightarrow> False
      | Inr s \<Rightarrow> (case sub_float s (Fin 1) of Inl e \<Rightarrow> False | Inr d \<Rightarrow> flt (fabs d) epsilon))"

text \<open>The instance that a successful \<open>RV(xs, qs)\<close> returns.\<close>

definition made :: "pyval list \<Rightarrow> pyval list \<Rightarrow> rv_instance" where
  "made xs qs = \<lparr>elements = Some xs, probabilities = Some qs,
     l_elem = Some (int (length xs)), l_prob = Some (int (length qs))\<rparr>"

text \<open>
  The draw as the specification words it. \<open>running_cdf acc qs i\<close> is the cumulative sum,
  counted from \<open>acc\<close>, after the probability of outcome \<open>i\<close> has been added;
  \<open>reached\<close> says that it is at least the uniform draw \<open>r\<close>; \<open>first_reached\<close> is the first
  outcome, in the order supplied, for which this holds, and the last outcome when it
  holds for none.
\<close>

definition running_cdf :: "pynum \<Rightarrow> pyval list \<Rightarrow> nat \<Rightarrow> pyerr + pynum" where
  "running_cdf acc qs i = py_sum_from acc (take (Suc i) qs)"

definition reached :: "pynum \<Rightarrow> pyval list \<Rightarrow> pyfloat \<Rightarrow> nat \<Rightarrow> bool" where
  "reached acc qs r i = (case running_cdf acc qs i of Inl e \<Rightarrow> False | Inr cdf \<Rightarrow> num_ge cdf r)"

definition first_reached :: "pyval list \<Rightarrow> pyval list \<Rightarrow> pyfloat \<Rightarrow> pyval" where
  "first_reached es qs r =
     (case find (reached (NInt 0) qs r) [0..<length es] of
        Some i \<Rightarrow> es ! i
      | None \<Rightarrow> last es)"

text \<open>
  The outcomes drawn by the two modes, in the order in which they are drawn: the values
  that the loop of \<open>generator_\<close> takes from \<open>data.next_num()\<close>, and the values that the
  loop of \<open>generator\<close> takes from the generator object, each up to the point where the
  loop ends or raises.
\<close>

fun batch_drawn :: "nat \<Rightarrow> rv_instance \<Rightarrow> pydict \<Rightarrow> rng \<Rightarrow> pyval list" where
  "batch_drawn 0 data d g = []"
| "batch_drawn (Suc k) data d g =
     (case next_num data g of
        (Inl e, g') \<Rightarrow> []
      | (Inr output, g') \<Rightarrow>
          output # (case tally d output of Inl e \<Rightarrow> [] | Inr d' \<Rightarrow> batch_drawn k data d' g'))"

function lazy_drawn :: "gen \<Rightarrow> pydict \<Rightarrow> rng \<Rightarrow> pyval list" where
  "lazy_drawn nums d g =
     (case gen_next nums g of
        (StopIteration, nums', g') \<Rightarrow> []
      | (Raise e, nums', g') \<Rightarrow> []
      | (Yield elem, nums', g') \<Rightarrow>
          elem # (case tally d elem of Inl e \<Rightarrow> [] | Inr d' \<Rightarrow> lazy_drawn nums' d' g'))"
  by pat_completeness auto

termination lazy_drawn
  by (relation "measure (\<lambda>(nums, d, g). gen_left nums)")
    (auto elim!: gen_next.elims [OF sym] split: prod.splits sum.splits)

declare lazy_drawn.simps [simp del]

section \<open>Assignment and construction\<close>

lemma set_elements_list:
  "set_elements inst (PList xs) =
     (if list_all isinstance_int xs then ([], None, inst\<lparr>elements := Some xs\<rparr>)
      else ([], Some integers_error, inst))"
  by (simp add: set_elements_def List_Integers_set_def List_set_def Integers_set_def
      integers_error_def)

lemma set_probabilities_accept:
  "within_epsilon v \<Longrightarrow>
   set_probabilities inst (PList v) = ([], None, inst\<lparr>probabilities := Some v\<rparr>)"
  by (auto simp: set_probabilities_def List_Probabilities_set_def List_set_def
      Probabilities_set_def within_epsilon_def split: sum.splits)

lemma set_probabilities_reject:
  "\<not> within_epsilon v \<Longrightarrow> \<exists>out e. set_probabilities inst (PList v) = (out, Some e, inst)"
  by (auto simp: set_probabilities_def List_Probabilities_set_def List_set_def
      Probabilities_set_def within_epsilon_def split: sum.splits pyerr.splits)

lemma RV_lists:
  "RV (PList xs) (PList qs) =
     (if \<not> list_all isinstance_int xs then ([], Inl integers_error)
      else if within_epsilon qs then ([], Inr (made xs qs))
      else (fst (set_probabilities (blank\<lparr>elements := Some xs\<rparr>) (PList qs)),
            Inl (the (fst (snd (set_probabilities (blank\<lparr>elements := Some xs\<rparr>) (PList qs)))))))"
proof (cases "list_all isinstance_int xs")
  case False
  then show ?thesis by (simp add: RV_def set_elements_list)
next
  case ints: True
  show ?thesis
  proof (cases "within_epsilon qs")
    case True
    with ints show ?thesis
      by (simp add: RV_def set_elements_list set_probabilities_accept made_def blank_def)
  next
    case False
    from set_probabilities_reject [OF this]
    obtain out e where "set_probabilities (blank\<lparr>elements := Some xs\<rparr>) (PList qs)
        = (out, Some e, blank\<lparr>elements := Some xs\<rparr>)"
      by blast
    with ints False show ?thesis by (simp add: RV_def set_elements_list)
  qed
qed

lemma RV_success:
  assumes "RV els ps = (out, Inr inst)"
  shows "\<exists>xs qs. els = PList xs \<and> ps = PList qs \<and> list_all isinstance_int xs
           \<and> within_epsilon qs \<and> out = [] \<and> inst = made xs qs"
proof -
  obtain xs where els: "els = PList xs"
    using assms
    by (cases els) (auto simp: RV_def set_elements_def List_Integers_set_def List_set_def)
  obtain qs where ps: "ps = PList qs"
    using assms els
    by (cases ps)
      (auto simp: RV_def set_elements_list set_probabilities_def List_Probabilities_set_def
        List_set_def split: if_splits)
  from assms show ?thesis
    unfolding els ps RV_lists by (auto split: if_splits)
qed

lemma list_tuple_made:
  "list_tuple (made xs qs) =
     (if length xs = length qs then Inr (zip xs qs) else Inl shape_error)"
  by (simp add: list_tuple_def made_def shape_error_def)

lemma int_to_float_err: "int_to_float n = Inl e \<Longrightarrow> e = overflow_error"
  by (auto simp: int_to_float_def overflow_error_def split: pyfloat.splits)

lemma py_add_err:
  "py_add acc v = Inl e \<Longrightarrow> (\<exists>m. e = TypeError m) \<or> e = overflow_error"
  by (cases "(acc, v)" rule: py_add.cases) (auto split: sum.splits dest: int_to_float_err)

lemma py_sum_from_err:
  "py_sum_from acc v = Inl e \<Longrightarrow> (\<exists>m. e = TypeError m) \<or> e = overflow_error"
proof (induction v arbitrary: acc)
  case Nil
  then show ?case by simp
next
  case (Cons x v)
  then show ?case
    by (auto split: sum.splits dest: py_add_err)
qed




lemma py_add_number: "py_add acc x = Inr acc' \<Longrightarrow> is_number x"
  by (cases "(acc, x)" rule: py_add.cases) auto

lemma py_sum_from_numbers: "py_sum_from acc v = Inr s \<Longrightarrow> list_all is_number v"
proof (induction v arbitrary: acc)
  case Nil
  then show ?case by simp
next
  case (Cons x v)
  then show ?case
    by (auto split: sum.splits dest: py_add_number)
qed

section \<open>The draw\<close>

lemma find_mapped: "find P (map f xs) = map_option f (find (P \<circ> f) xs)"
  by (induction xs) simp_all

lemma find_upt_Suc:
  "find P [0..<Suc n] = (if P 0 then Some 0 else map_option Suc (find (P \<circ> Suc) [0..<n]))"
proof -
  have "[0..<Suc n] = 0 # map Suc [0..<n]"
    by (simp add: map_Suc_upt upt_conv_Cons del: upt_Suc)
  then show ?thesis
    by (simp add: find_mapped del: upt_Suc)
qed

lemma reached_0:
  "py_add acc q = Inr acc' \<Longrightarrow> reached acc (q # qs) r 0 = num_ge acc' r"
  by (simp add: reached_def running_cdf_def)

lemma reached_Suc:
  "py_add acc q = Inr acc' \<Longrightarrow> reached acc (q # qs) r (Suc i) = reached acc' qs r i"
  by (simp add: reached_def running_cdf_def)

text \<open>
  The loop of \<open>next_num\<close> over the paired lists, when the probabilities can be summed:
  it returns the first outcome that reaches \<open>r\<close>, and after the loop the outcome bound
  last to \<open>item\<close>.
\<close>

lemma next_num_loop_first_reached:
  assumes "length es = length qs" and "py_sum_from acc qs = Inr s"
  shows "next_num_loop (zip es qs) r acc item =
     (case find (reached acc qs r) [0..<length es] of
        Some i \<Rightarrow> Inr (es ! i)
      | None \<Rightarrow> if es = [] then (case item of None \<Rightarrow> Inl (UnboundLocalError ''item'')
                                   | Some x \<Rightarrow> Inr x)
                else Inr (last es))"
  using assms
proof (induction es arbitrary: qs acc item)
  case Nil
  then show ?case by simp
next
  case (Cons e es)
  then obtain q qs' where qs: "qs = q # qs'"
    by (cases qs) auto
  with Cons.prems obtain acc' where
    add: "py_add acc q = Inr acc'" and rest: "py_sum_from acc' qs' = Inr s"
    by (auto split: sum.splits)
  from Cons.prems qs have len: "length es = length qs'"
    by simp
  have step: "reached acc (q # qs') r \<circ> Suc = reached acc' qs' r"
    by (rule ext) (simp add: reached_Suc [OF add])
  show ?case
  proof (cases "num_ge acc' r")
    case True
    then show ?thesis
      unfolding qs by (simp add: add find_upt_Suc reached_0 [OF add] del: upt_Suc)
  next
    case False
    have "next_num_loop (zip (e # es) qs) r acc item = next_num_loop (zip es qs') r acc' (Some e)"
      unfolding qs using False by (simp add: add)
    also have "\<dots> = (case find (reached acc' qs' r) [0..<length es] of
        Some i \<Rightarrow> Inr (es ! i)
      | None \<Rightarrow> if es = [] then Inr e else Inr (last es))"
      by (simp add: Cons.IH [OF len rest])
    finally show ?thesis
      unfolding qs using False
      by (simp add: find_upt_Suc reached_0 [OF add] step del: upt_Suc split: option.splits)
  qed
qed

lemma within_epsilon_sum: "within_epsilon qs \<Longrightarrow> \<exists>s. py_sum_from (NInt 0) qs = Inr s"
  by (auto simp: within_epsilon_def py_sum_def split: sum.splits)

lemma within_epsilon_nonempty: "within_epsilon qs \<Longrightarrow> qs \<noteq> []"
proof
  assume "within_epsilon qs" and "qs = []"
  then have "within_epsilon []" by simp
  moreover have "\<not> within_epsilon []" by code_simp
  ultimately show False by simp
qed

lemma next_num_made:
  assumes "within_epsilon qs" and "length es = length qs"
  shows "next_num (made es qs) g = (Inr (first_reached es qs (g 0)), \<lambda>n. g (Suc n))"
proof -
  from within_epsilon_sum [OF assms(1)] obtain s where s: "py_sum_from (NInt 0) qs = Inr s"
    by blast
  from within_epsilon_nonempty [OF assms(1)] assms(2) have ne: "es \<noteq> []"
    by auto
  show ?thesis
    using ne assms(2)
    by (simp add: next_num_def list_tuple_made uniform_def first_reached_def
        next_num_loop_first_reached [OF assms(2) s] split: option.splits)
qed


section \<open>The two modes\<close>

lemma generator_loop_Suspended:
  "generator_loop (Suspended data k) d g = generator_batch_loop k data d g"
proof (induction k arbitrary: d g)
  case 0
  show ?case
    by (subst generator_loop.simps) simp
next
  case (Suc k)
  show ?case
    by (subst generator_loop.simps)
      (simp add: Suc.IH split: prod.splits sum.splits)
qed

lemma lazy_drawn_Suspended:
  "lazy_drawn (Suspended data k) d g = batch_drawn k data d g"
proof (induction k arbitrary: d g)
  case 0
  show ?case
    by (subst lazy_drawn.simps) simp
next
  case (Suc k)
  show ?case
    by (subst lazy_drawn.simps)
      (simp add: Suc.IH split: prod.splits sum.splits)
qed

section \<open>The histogram\<close>
















section \<open>The claims\<close>

text \<open>
  C1. For an instance that \<open>RV\<close> returned, with as many outcomes as probabilities, a
  draw takes one value \<open>r\<close> from the random source and returns the first outcome, in
  the order supplied, whose running cumulative sum is at least \<open>r\<close>, and the last
  outcome when no sum reaches \<open>r\<close>; there is at least one outcome. With outcomes \<open>[5]\<close>
  and probabilities \<open>[1.0]\<close> every draw returns \<open>5\<close>, whatever the random source gives.
\<close>

theorem next_num_inverse_cdf:
  assumes "RV els ps = (out, Inr inst)"
    and "elements inst = Some es" and "probabilities inst = Some qs"
    and "length es = length qs"
  shows "next_num inst g = (Inr (first_reached es qs (g 0)), \<lambda>n. g (Suc n))
       \<and> es \<noteq> []
       \<and> RV (PList [PInt 5]) (PList [PFloat (Fin 1)])
           = ([], Inr (made [PInt 5] [PFloat (Fin 1)]))
       \<and> next_num (made [PInt 5] [PFloat (Fin 1)]) g' = (Inr (PInt 5), \<lambda>n. g' (Suc n))"
proof -
  from RV_success [OF assms(1)] obtain xs ys where
    v: "list_all isinstance_int xs" "within_epsilon ys" "inst = made xs ys"
    by blast
  from v(3) assms(2,3) have eq: "xs = es" "ys = qs"
    by (simp_all add: made_def)
  have five: "RV (PList [PInt 5]) (PList [PFloat (Fin 1)])
      = ([], Inr (made [PInt 5] [PFloat (Fin 1)]))"
    by code_simp
  then have w5: "within_epsilon [PFloat (Fin 1)]"
    by (auto dest: RV_success)
  have "first_reached [PInt 5] [PFloat (Fin 1)] r = PInt 5" for r
    by (simp add: first_reached_def split: option.splits)
  with next_num_made [OF w5, of "[PInt 5]" g']
  have n5: "next_num (made [PInt 5] [PFloat (Fin 1)]) g' = (Inr (PInt 5), \<lambda>n. g' (Suc n))"
    by simp
  from within_epsilon_nonempty [of qs] v(2) eq assms(4) have "es \<noteq> []"
    by auto
  with next_num_made [of qs es g] v eq assms(4) five n5 show ?thesis
    by simp
qed

theorem next_num_inverse_cdf_witness:
  "RV (PList [PInt 1, PInt 2, PInt 3])
      (PList [PFloat (Fin (1 / 4)), PFloat (Fin (1 / 2)), PFloat (Fin (1 / 4))])
     = ([], Inr (made [PInt 1, PInt 2, PInt 3]
                      [PFloat (Fin (1 / 4)), PFloat (Fin (1 / 2)), PFloat (Fin (1 / 4))]))
   \<and> fst (next_num (made [PInt 1, PInt 2, PInt 3]
                      [PFloat (Fin (1 / 4)), PFloat (Fin (1 / 2)), PFloat (Fin (1 / 4))])
            (\<lambda>n. Fin (1 / 2))) = Inr (PInt 2)
   \<and> first_reached [PInt 1, PInt 2, PInt 3]
        [PFloat (Fin (1 / 4)), PFloat (Fin (1 / 2)), PFloat (Fin (1 / 4))] (Fin (1 / 2)) = PInt 2"
proof -
  let ?es = "[PInt 1, PInt 2, PInt 3]"
  let ?qs = "[PFloat (Fin (1 / 4)), PFloat (Fin (1 / 2)), PFloat (Fin (1 / 4))]"
  have h: "RV (PList ?es) (PList ?qs) = ([], Inr (made ?es ?qs))"
    by code_simp
  have e: "elements (made ?es ?qs) = Some ?es" and q: "probabilities (made ?es ?qs) = Some ?qs"
    by (simp_all add: made_def)
  have l: "length ?es = length ?qs"
    by simp
  have f: "first_reached ?es ?qs (Fin (1 / 2)) = PInt 2"
    by code_simp
  show ?thesis
    using h f next_num_inverse_cdf [OF h e q l, of "\<lambda>n. Fin (1 / 2)"]
    by simp
qed

text \<open>
  C2. A list is accepted as \<open>probabilities\<close> exactly when
  \<open>abs(sum(probabilities) - 1.0) < 1e-4\<close> holds in floating point. A list whose sum is
  the float \<open>1.0001\<close> is accepted and stored: the float nearest to 1.0001 lies below it,
  so that its distance to \<open>1.0\<close> is less than the float \<open>0.0001\<close>. A list whose sum is the
  float \<open>1.00011\<close> is refused with the \<open>ValueError\<close> of \<open>_Probabilities\<close>.
\<close>

theorem probabilities_accepted_iff_within_epsilon:
  "(fst (snd (set_probabilities inst (PList v))) = None) = within_epsilon v
   \<and> (py_sum v = Inr (NFloat (round64 (10001 / 10000))) \<longrightarrow>
        set_probabilities inst (PList v) = ([], None, inst\<lparr>probabilities := Some v\<rparr>))
   \<and> (py_sum v = Inr (NFloat (round64 (100011 / 100000))) \<longrightarrow>
        set_probabilities inst (PList v) = ([], Some epsilon_error, inst))"
proof (intro conjI impI)
  show "(fst (snd (set_probabilities inst (PList v))) = None) = within_epsilon v"
  proof (cases "within_epsilon v")
    case True
    then show ?thesis by (simp add: set_probabilities_accept)
  next
    case False
    from set_probabilities_reject [OF this, of inst] False show ?thesis by auto
  qed
next
  assume s: "py_sum v = Inr (NFloat (round64 (10001 / 10000)))"
  have "flt (fabs (fsub (round64 (10001 / 10000)) (Fin 1))) epsilon"
    by code_simp
  with s have "within_epsilon v"
    by (simp add: within_epsilon_def)
  then show "set_probabilities inst (PList v) = ([], None, inst\<lparr>probabilities := Some v\<rparr>)"
    by (rule set_probabilities_accept)
next
  assume s: "py_sum v = Inr (NFloat (round64 (100011 / 100000)))"
  have "\<not> flt (fabs (fsub (round64 (100011 / 100000)) (Fin 1))) epsilon"
    by code_simp
  with s show "set_probabilities inst (PList v) = ([], Some epsilon_error, inst)"
    by (simp add: set_probabilities_def List_Probabilities_set_def List_set_def
        Probabilities_set_def epsilon_error_def)
qed

theorem probabilities_accepted_iff_within_epsilon_witness:
  "py_sum [PFloat (round64 (10001 / 10000))] = Inr (NFloat (round64 (10001 / 10000)))
   \<and> set_probabilities (made [PInt 5] [PFloat (Fin 1)]) (PList [PFloat (round64 (10001 / 10000))])
       = ([], None, made [PInt 5] [PFloat (round64 (10001 / 10000))])
   \<and> py_sum [PFloat (round64 (100011 / 100000))] = Inr (NFloat (round64 (100011 / 100000)))
   \<and> set_probabilities (made [PInt 5] [PFloat (Fin 1)]) (PList [PFloat (round64 (100011 / 100000))])
       = ([], Some (ValueError ''Must be within Epsilon of 1.0.''), made [PInt 5] [PFloat (Fin 1)])"
proof -
  have a: "py_sum [PFloat (round64 (10001 / 10000))] = Inr (NFloat (round64 (10001 / 10000)))"
    by code_simp
  have b: "py_sum [PFloat (round64 (100011 / 100000))] = Inr (NFloat (round64 (100011 / 100000)))"
    by code_simp
  show ?thesis
    using a b
      probabilities_accepted_iff_within_epsilon [of "made [PInt 5] [PFloat (Fin 1)]"
        "[PFloat (round64 (10001 / 10000))]"]
      probabilities_accepted_iff_within_epsilon [of "made [PInt 5] [PFloat (Fin 1)]"
        "[PFloat (round64 (100011 / 100000))]"]
    by (simp add: made_def epsilon_error_def)
qed






text \<open>
  C5. On the same instance and the same random source, the lazy mode and the batch
  mode draw the same outcomes in the same order, return the same histogram or raise
  the same exception, and leave the random source in the same state, for every \<open>n\<close>.
  The decorator of \<open>generator\<close> only prints before the call.
\<close>

theorem lazy_equals_batch:
  "lazy_drawn (generator_next data n) d g = batch_drawn (nat n) data d g
   \<and> generator_loop (generator_next data n) d g = generator_batch_loop (nat n) data d g
   \<and> generator_body n data g = generator_batch n data g
   \<and> snd (generator n data g) = generator_batch n data g"
  by (simp add: generator_next_def lazy_drawn_Suspended generator_loop_Suspended
      generator_body_def generator_batch_def generator_def debug_def split: sum.splits)

text \<open>
  C6 fails on the code. After \<open>inst = RV([1, 2], [0.5, 0.5])\<close>, the assignment
  \<open>inst.elements = [1, 2, 3]\<close> is accepted and leaves the stored lengths as they were,
  so that \<open>list_tuple\<close> compares the lengths of the lists of the constructor: it raises
  nothing and pairs two of the three outcomes, and \<open>next_num\<close> draws from them.
\<close>

theorem reassigned_lengths_not_rechecked:
  "RV (PList [PInt 1, PInt 2]) (PList [PFloat (Fin (1 / 2)), PFloat (Fin (1 / 2))])
     = ([], Inr (made [PInt 1, PInt 2] [PFloat (Fin (1 / 2)), PFloat (Fin (1 / 2))]))
   \<and> set_elements (made [PInt 1, PInt 2] [PFloat (Fin (1 / 2)), PFloat (Fin (1 / 2))])
        (PList [PInt 1, PInt 2, PInt 3])
     = ([], None, \<lparr>elements = Some [PInt 1, PInt 2, PInt 3],
          probabilities = Some [PFloat (Fin (1 / 2)), PFloat (Fin (1 / 2))],
          l_elem = Some 2, l_prob = Some 2\<rparr>)
   \<and> list_tuple \<lparr>elements = Some [PInt 1, PInt 2, PInt 3],
          probabilities = Some [PFloat (Fin (1 / 2)), PFloat (Fin (1 / 2))],
          l_elem = Some 2, l_prob = Some 2\<rparr>
     = Inr [(PInt 1, PFloat (Fin (1 / 2))), (PInt 2, PFloat (Fin (1 / 2)))]
   \<and> fst (next_num \<lparr>elements = Some [PInt 1, PInt 2, PInt 3],
          probabilities = Some [PFloat (Fin (1 / 2)), PFloat (Fin (1 / 2))],
          l_elem = Some 2, l_prob = Some 2\<rparr> (\<lambda>n. Fin (3 / 4)))
     = Inr (PInt 2)"
  by code_simp

text \<open>
  C7, as amended. Assigning to \<open>probabilities\<close> a list with an entry that is not a
  number fails and stores nothing, and what is raised is never the \<open>ValueError\<close> of a
  sum outside epsilon: it is the \<open>TypeError\<close> of the summation, printed and raised
  again as it is, or, when an \<open>int\<close> too large for a \<open>float\<close> is met first, the
  \<open>OverflowError\<close> of the summation, which is not caught.
\<close>

theorem non_numeric_probabilities_raise_TypeError:
  assumes "\<not> list_all is_number v"
  shows "\<exists>out e. set_probabilities inst (PList v) = (out, Some e, inst)
           \<and> e \<noteq> epsilon_error
           \<and> ((\<exists>m. e = TypeError m \<and> py_sum v = Inl e
                   \<and> out = [''Probabilities required: '' @ m @ ''.''])
               \<or> (e = overflow_error \<and> py_sum v = Inl e \<and> out = []))"
proof -
  from assms obtain err where err: "py_sum v = Inl err"
    using py_sum_from_numbers [of "NInt 0" v] by (cases "py_sum v") (auto simp: py_sum_def)
  from py_sum_from_err [OF err [unfolded py_sum_def]]
  consider m where "err = TypeError m" | "err = overflow_error"
    by blast
  then show ?thesis
  proof cases
    case 1
    with err have "set_probabilities inst (PList v)
        = ([''Probabilities required: '' @ m @ ''.''], Some (TypeError m), inst)"
      by (simp add: set_probabilities_def List_Probabilities_set_def List_set_def
          Probabilities_set_def)
    with 1 err show ?thesis
      by (simp add: epsilon_error_def)
  next
    case 2
    with err have "set_probabilities inst (PList v) = ([], Some overflow_error, inst)"
      by (simp add: set_probabilities_def List_Probabilities_set_def List_set_def
          Probabilities_set_def overflow_error_def)
    with 2 err show ?thesis
      by (simp add: epsilon_error_def overflow_error_def)
  qed
qed

theorem non_numeric_probabilities_raise_TypeError_witness:
  "\<not> list_all is_number [PStr ''a'']
   \<and> set_probabilities (made [PInt 5] [PFloat (Fin 1)]) (PList [PStr ''a''])
     = ([''Probabilities required: unsupported operand type(s) for +: '' @ quoted ''int''
           @ '' and '' @ quoted ''str'' @ ''.''],
        Some (TypeError (''unsupported operand type(s) for +: '' @ quoted ''int''
           @ '' and '' @ quoted ''str'')),
        made [PInt 5] [PFloat (Fin 1)])"
proof -
  have h: "\<not> list_all is_number [PStr ''a'']"
    by simp
  have s: "py_sum [PStr ''a''] = Inl (TypeError (''unsupported operand type(s) for +: ''
      @ quoted ''int'' @ '' and '' @ quoted ''str''))"
    by (simp add: py_sum_def)
  from non_numeric_probabilities_raise_TypeError [OF h, of "made [PInt 5] [PFloat (Fin 1)]"]
  obtain out e where
    r: "set_probabilities (made [PInt 5] [PFloat (Fin 1)]) (PList [PStr ''a''])
        = (out, Some e, made [PInt 5] [PFloat (Fin 1)])"
    and k: "(\<exists>m. e = TypeError m \<and> py_sum [PStr ''a''] = Inl e
                   \<and> out = [''Probabilities required: '' @ m @ ''.''])
               \<or> (e = overflow_error \<and> py_sum [PStr ''a''] = Inl e \<and> out = [])"
    by blast
  from k s have "e = TypeError (''unsupported operand type(s) for +: ''
      @ quoted ''int'' @ '' and '' @ quoted ''str'')"
    and "out = [''Probabilities required: unsupported operand type(s) for +: '' @ quoted ''int''
           @ '' and '' @ quoted ''str'' @ ''.'']"
    by (auto simp: overflow_error_def)
  with r h show ?thesis by simp
qed

text \<open>
  C7, as stated, fails: a non-numeric entry raises a \<open>TypeError\<close>, while a sum outside
  epsilon raises a \<open>ValueError\<close>.
\<close>

theorem non_numeric_error_kind_counterexample:
  "fst (snd (set_probabilities blank (PList [PStr ''a''])))
     = Some (TypeError (''unsupported operand type(s) for +: '' @ quoted ''int''
           @ '' and '' @ quoted ''str''))
   \<and> fst (snd (set_probabilities blank (PList [PFloat (Fin (1 / 2))])))
     = Some (ValueError ''Must be within Epsilon of 1.0.'')"
  by code_simp

text \<open>
  C8. Assigning to \<open>elements\<close> a list with an element that is not an \<open>int\<close> raises the
  \<open>TypeError\<close> of \<open>_Integers\<close>, on an existing instance and in the constructor alike,
  and the instance keeps the value it had: nothing is stored.
\<close>

theorem non_integer_outcomes_rejected:
  assumes "\<not> list_all isinstance_int xs"
  shows "set_elements inst (PList xs) = ([], Some integers_error, inst)
       \<and> RV (PList xs) ps = ([], Inl integers_error)"
  using assms by (simp add: set_elements_list RV_def)

theorem non_integer_outcomes_rejected_witness:
  "\<not> list_all isinstance_int [PInt 1, PFloat (Fin (5 / 2))]
   \<and> set_elements (made [PInt 7] [PFloat (Fin 1)]) (PList [PInt 1, PFloat (Fin (5 / 2))])
       = ([], Some (TypeError ''The List passed must consist of all Integer Values.''),
          made [PInt 7] [PFloat (Fin 1)])
   \<and> RV (PList [PInt 1, PFloat (Fin (5 / 2))]) (PList [PFloat (Fin 1)])
       = ([], Inl (TypeError ''The List passed must consist of all Integer Values.''))"
proof -
  have h: "\<not> list_all isinstance_int [PInt 1, PFloat (Fin (5 / 2))]"
    by simp
  show ?thesis
    using h non_integer_outcomes_rejected [OF h, of "made [PInt 7] [PFloat (Fin 1)]"
        "PList [PFloat (Fin 1)]"]
    by (simp add: integers_error_def)
qed

text \<open>
  C9. Validation is idempotent: on an instance that \<open>RV(els, ps)\<close> returned, assigning
  \<open>els\<close> to \<open>elements\<close> and \<open>ps\<close> to \<open>probabilities\<close> again raises nothing, prints
  nothing and leaves the instance as it is; constructing again gives the same instance.
\<close>

theorem revalidation_idempotent:
  assumes "RV els ps = (out, Inr inst)"
  shows "set_elements inst els = ([], None, inst)
       \<and> set_probabilities inst ps = ([], None, inst)
       \<and> RV els ps = ([], Inr inst)"
proof -
  from RV_success [OF assms] obtain xs qs where
    v: "els = PList xs" "ps = PList qs" "list_all isinstance_int xs" "within_epsilon qs"
      "out = []" "inst = made xs qs"
    by blast
  show ?thesis
    using assms unfolding v
    by (simp add: set_elements_list set_probabilities_accept v(3,4) made_def)
qed

theorem revalidation_idempotent_witness:
  "RV (PList [PInt 5]) (PList [PFloat (Fin 1)]) = ([], Inr (made [PInt 5] [PFloat (Fin 1)]))
   \<and> set_elements (made [PInt 5] [PFloat (Fin 1)]) (PList [PInt 5])
       = ([], None, made [PInt 5] [PFloat (Fin 1)])
   \<and> set_probabilities (made [PInt 5] [PFloat (Fin 1)]) (PList [PFloat (Fin 1)])
       = ([], None, made [PInt 5] [PFloat (Fin 1)])"
proof -
  have h: "RV (PList [PInt 5]) (PList [PFloat (Fin 1)])
      = ([], Inr (made [PInt 5] [PFloat (Fin 1)]))"
    by code_simp
  show ?thesis
    using h revalidation_idempotent [OF h] by simp
qed

text \<open>
  C10. The element check lets booleans through: every list of booleans is stored as
  \<open>elements\<close>; \<open>RV([True, False], [0.5, 0.5])\<close> returns an instance, and its draws are
  booleans.
\<close>

theorem booleans_accepted_as_outcomes:
  "set_elements inst (PList (map PBool bs)) = ([], None, inst\<lparr>elements := Some (map PBool bs)\<rparr>)
   \<and> RV (PList [PBool True, PBool False]) (PList [PFloat (Fin (1 / 2)), PFloat (Fin (1 / 2))])
       = ([], Inr (made [PBool True, PBool False] [PFloat (Fin (1 / 2)), PFloat (Fin (1 / 2))]))
   \<and> fst (next_num (made [PBool True, PBool False] [PFloat (Fin (1 / 2)), PFloat (Fin (1 / 2))])
          (\<lambda>n. round64 (3 / 10))) = Inr (PBool True)
   \<and> fst (next_num (made [PBool True, PBool False] [PFloat (Fin (1 / 2)), PFloat (Fin (1 / 2))])
          (\<lambda>n. round64 (7 / 10))) = Inr (PBool False)"
proof (intro conjI)
  have "list_all isinstance_int (map PBool bs)"
    by (induction bs) simp_all
  then show "set_elements inst (PList (map PBool bs))
      = ([], None, inst\<lparr>elements := Some (map PBool bs)\<rparr>)"
    by (simp add: set_elements_list)
next
  show "RV (PList [PBool True, PBool False]) (PList [PFloat (Fin (1 / 2)), PFloat (Fin (1 / 2))])
       = ([], Inr (made [PBool True, PBool False] [PFloat (Fin (1 / 2)), PFloat (Fin (1 / 2))]))"
    by code_simp
next
  show "fst (next_num (made [PBool True, PBool False] [PFloat (Fin (1 / 2)), PFloat (Fin (1 / 2))])
          (\<lambda>n. round64 (3 / 10))) = Inr (PBool True)"
    by code_simp
next
  show "fst (next_num (made [PBool True, PBool False] [PFloat (Fin (1 / 2)), PFloat (Fin (1 / 2))])
          (\<lambda>n. round64 (7 / 10))) = Inr (PBool False)"
    by code_simp
qed

end
